theory Spec2Isabelle
  imports Complex_Main "HOL-Library.Word"
begin

section \<open>Script store (App component)\<close>

text \<open>
  The \<^verbatim>\<open>SavedScript\<close> interface of \<^verbatim>\<open>types.ts\<close>. Strings are lists of characters
  (the length of a title counts its code units, as \<^verbatim>\<open>maxLength\<close> and
  \<^verbatim>\<open>substring\<close> do); \<^verbatim>\<open>lastModified\<close> is a \<^verbatim>\<open>Date.now()\<close> reading in milliseconds.
\<close>

record savedScript =
  id_script :: string
  title :: string
  content :: string
  lastModified :: int

text \<open>The two pieces of React state of \<^verbatim>\<open>App\<close> that the store operations touch.\<close>

record app =
  scripts :: "savedScript list"
  activeScriptId :: string

definition MAX_SCRIPTS :: nat where
  "MAX_SCRIPTS = 10"

text \<open>
  A record as \<^verbatim>\<open>JSON.parse\<close> returns it (\<^verbatim>\<open>s: any\<close>): data written by an older version
  may lack the \<^verbatim>\<open>title\<close> property.
\<close>

record storedScript =
  s_id :: string
  s_title :: "string option"
  s_content :: string
  s_lastModified :: int

text \<open>
  What \<^verbatim>\<open>localStorage.getItem(STORAGE_KEY)\<close> followed by \<^verbatim>\<open>JSON.parse\<close> can yield:
  no item under the key, a text that does not parse (the \<^verbatim>\<open>catch\<close> branch), or the array
  of records. \<^verbatim>\<open>JSON.parse\<close> after \<^verbatim>\<open>JSON.stringify\<close> is the identity on arrays of
  objects whose fields are strings and integers; the model keeps the parsed form.
\<close>

datatype storage = NoItem | Unparsable | Parsed "storedScript list"

definition toStored :: "savedScript \<Rightarrow> storedScript" where
  "toStored s = \<lparr>s_id = id_script s, s_title = Some (title s),
                 s_content = content s, s_lastModified = lastModified s\<rparr>"

text \<open>The auto-save effect: \<^verbatim>\<open>localStorage.setItem(STORAGE_KEY, JSON.stringify(scripts))\<close>.\<close>

definition saveScripts :: "savedScript list \<Rightarrow> storage" where
  "saveScripts xs = Parsed (map toStored xs)"

text \<open>\<^verbatim>\<open>s.content.split('\n')[0].substring(0, 30)\<close>\<close>

definition firstLine30 :: "string \<Rightarrow> string" where
  "firstLine30 c = take 30 (takeWhile (\<lambda>ch. ch \<noteq> CHR 0x0A) c)"

text \<open>
  The migration of one record:
  \<^verbatim>\<open>title: s.title || (s.content ? s.content.split('\n')[0].substring(0, 30) : 'Untitled Script')\<close>.
  The operator \<^verbatim>\<open>||\<close> takes its right operand when the left one is \<^verbatim>\<open>undefined\<close> and
  also when it is the empty string; \<^verbatim>\<open>s.content ? _ : _\<close> tests for a non-empty string.
\<close>

definition backfillTitle :: "string \<Rightarrow> string" where
  "backfillTitle c = (if c \<noteq> [] then firstLine30 c else ''Untitled Script'')"

definition migrate :: "storedScript \<Rightarrow> savedScript" where
  "migrate s =
     \<lparr>id_script = s_id s,
      title = (case s_title s of
                 None \<Rightarrow> backfillTitle (s_content s)
               | Some t \<Rightarrow> if t \<noteq> [] then t else backfillTitle (s_content s)),
      content = s_content s,
      lastModified = s_lastModified s\<rparr>"

text \<open>
  The initializer of \<^verbatim>\<open>scripts\<close>; \<open>uuid\<close> and \<open>now\<close> are the values
  \<^verbatim>\<open>crypto.randomUUID()\<close> and \<^verbatim>\<open>Date.now()\<close> return for the default script.
\<close>

definition scriptsInit :: "storage \<Rightarrow> string \<Rightarrow> int \<Rightarrow> savedScript list" where
  "scriptsInit saved uuid now =
     (case saved of
        Parsed parsed \<Rightarrow> map migrate parsed
      | _ \<Rightarrow> [\<lparr>id_script = uuid, title = ''Welcome to Legg.io'', content = '''',
               lastModified = now\<rparr>])"

text \<open>The initializer of \<^verbatim>\<open>activeScriptId\<close>.\<close>

definition activeInit :: "savedScript list \<Rightarrow> string" where
  "activeInit xs = (case xs of [] \<Rightarrow> '''' | s # _ \<Rightarrow> id_script s)"

definition appInit :: "storage \<Rightarrow> string \<Rightarrow> int \<Rightarrow> app" where
  "appInit saved uuid now =
     (let xs = scriptsInit saved uuid now
      in \<lparr>scripts = xs, activeScriptId = activeInit xs\<rparr>)"

definition handleUpdateScript :: "string \<Rightarrow> int \<Rightarrow> app \<Rightarrow> app" where
  "handleUpdateScript c now st =
     st\<lparr>scripts := map (\<lambda>s. if id_script s = activeScriptId st
                               then s\<lparr>content := c, lastModified := now\<rparr> else s)
                        (scripts st)\<rparr>"

definition handleRenameScript :: "string \<Rightarrow> int \<Rightarrow> app \<Rightarrow> app" where
  "handleRenameScript t now st =
     st\<lparr>scripts := map (\<lambda>s. if id_script s = activeScriptId st
                               then s\<lparr>title := t, lastModified := now\<rparr> else s)
                        (scripts st)\<rparr>"

definition handleCreateScript :: "string \<Rightarrow> int \<Rightarrow> app \<Rightarrow> app" where
  "handleCreateScript uuid now st =
     (if length (scripts st) \<ge> MAX_SCRIPTS then st
      else st\<lparr>scripts := \<lparr>id_script = uuid, title = ''New Script'', content = '''',
                           lastModified = now\<rparr> # scripts st,
              activeScriptId := uuid\<rparr>)"

text \<open>
  \<^verbatim>\<open>handleDeleteScript\<close>. With at most one script it clears the active script in place
  (two setters, hence two clock readings) and ignores its argument. Otherwise it filters
  the list; \<^verbatim>\<open>newScripts[0].id\<close> throws a \<^verbatim>\<open>TypeError\<close> when the filter leaves nothing,
  after \<^verbatim>\<open>setScripts(newScripts)\<close> has been queued: the result pairs the error, if any,
  with the state React commits.
\<close>

datatype error = TypeError

definition handleDeleteScript :: "string \<Rightarrow> int \<Rightarrow> int \<Rightarrow> app \<Rightarrow> error option \<times> app" where
  "handleDeleteScript i now1 now2 st =
     (if length (scripts st) \<le> 1
      then (None, handleRenameScript ''Untitled Script'' now2 (handleUpdateScript '''' now1 st))
      else let newScripts = filter (\<lambda>s. id_script s \<noteq> i) (scripts st)
           in if i = activeScriptId st
              then (case newScripts of
                      [] \<Rightarrow> (Some TypeError, st\<lparr>scripts := newScripts\<rparr>)
                    | s # _ \<Rightarrow> (None, st\<lparr>scripts := newScripts, activeScriptId := id_script s\<rparr>))
              else (None, st\<lparr>scripts := newScripts\<rparr>))"

text \<open>
  The title field of the Editor:
  \<^verbatim>\<open><input value={activeScript?.title || ''} onChange={(e) => onRename(e.target.value)} maxLength={50} />\<close>.
  The browser lets at most \<^verbatim>\<open>maxLength\<close> code units into the value of the field: of the
  text \<open>typed\<close> that the user enters, what lies beyond the limit is cut off, and the rest
  is the \<^verbatim>\<open>e.target.value\<close> handed to \<^verbatim>\<open>onRename\<close>, which is \<^verbatim>\<open>handleRenameScript\<close>.
\<close>

definition titleMaxLength :: nat where
  "titleMaxLength = 50"

definition titleInput :: "string \<Rightarrow> string" where
  "titleInput typed = take titleMaxLength typed"

definition onTitleChange :: "string \<Rightarrow> int \<Rightarrow> app \<Rightarrow> app" where
  "onTitleChange typed now st = handleRenameScript (titleInput typed) now st"

text \<open>
  The operations of the store as events. \<open>Rename\<close> is a call of the handler itself,
  \<open>TitleChange\<close> an edit of the title field. \<open>Reload\<close> is a later visit of the page:
  the collection is read back from what the auto-save effect wrote.
\<close>

datatype action =
    Update string int
  | Rename string int
  | TitleChange string int
  | Create string int
  | Delete string int int
  | Select string
  | Reload string int

fun step :: "action \<Rightarrow> app \<Rightarrow> app" where
  "step (Update c now) st = handleUpdateScript c now st"
| "step (Rename t now) st = handleRenameScript t now st"
| "step (TitleChange typed now) st = onTitleChange typed now st"
| "step (Create uuid now) st = handleCreateScript uuid now st"
| "step (Delete i now1 now2) st = snd (handleDeleteScript i now1 now2 st)"
| "step (Select i) st = st\<lparr>activeScriptId := i\<rparr>"
| "step (Reload uuid now) st = appInit (saveScripts (scripts st)) uuid now"

text \<open>
  \<^verbatim>\<open>crypto.randomUUID()\<close> returns an identifier that no script carries yet.
\<close>

fun uuidFresh :: "action \<Rightarrow> app \<Rightarrow> bool" where
  "uuidFresh (Create uuid now) st = (uuid \<notin> id_script ` set (scripts st))"
| "uuidFresh _ st = True"

text \<open>
  What the Editor can send: it reaches \<^verbatim>\<open>handleRenameScript\<close> only through its title
  field (whatever the user types there), and \<^verbatim>\<open>onSelect\<close> is called with the id of a
  listed script.
\<close>

fun fromEditor :: "action \<Rightarrow> app \<Rightarrow> bool" where
  "fromEditor (Rename t now) st = False"
| "fromEditor (Select i) st = (i \<in> id_script ` set (scripts st))"
| "fromEditor a st = uuidFresh a st"

fun run :: "action list \<Rightarrow> app \<Rightarrow> app" where
  "run [] st = st"
| "run (a # as) st = run as (step a st)"

fun admissible :: "(action \<Rightarrow> app \<Rightarrow> bool) \<Rightarrow> action list \<Rightarrow> app \<Rightarrow> bool" where
  "admissible ok [] st = True"
| "admissible ok (a # as) st = (ok a st \<and> admissible ok as (step a st))"

text \<open>
  The invariant of the collection: identifiers are pairwise distinct and the count lies
  between 1 and \<open>MAX_SCRIPTS\<close>.
\<close>

definition storeInv :: "app \<Rightarrow> bool" where
  "storeInv st \<longleftrightarrow> distinct (map id_script (scripts st)) \<and>
     1 \<le> length (scripts st) \<and> length (scripts st) \<le> MAX_SCRIPTS"


section \<open>Prompter component\<close>

text \<open>
  A media stream is the list of its tracks (\<^verbatim>\<open>getTracks()\<close>); a track is its kind and an
  identifier. Whether a track has been stopped is platform state, kept in
  \<open>stoppedTracks\<close> below.
\<close>

datatype trackKind = AudioTrack | VideoTrack

type_synonym track = "trackKind \<times> nat"
type_synonym mediaStream = "track list"

text \<open>
  The scrolling \<^verbatim>\<open>div\<close> behind \<^verbatim>\<open>containerRef\<close>: \<open>maxScroll\<close> is
  \<^verbatim>\<open>scrollHeight - clientHeight\<close>. The DOM clamps every value assigned to \<^verbatim>\<open>scrollTop\<close>
  to the range from 0 to \<open>maxScroll\<close>.
\<close>

record container =
  scrollTop :: int
  maxScroll :: int

definition setScrollTop :: "int \<Rightarrow> container \<Rightarrow> container" where
  "setScrollTop v c = c\<lparr>scrollTop := max 0 (min (maxScroll c) v)\<rparr>"

datatype recorderState = Recording | Inactive

text \<open>
  The \<^verbatim>\<open>useState\<close> and \<^verbatim>\<open>useRef\<close> cells of \<^verbatim>\<open>Prompter\<close> that the playback, audio,
  background and recording logic reads or writes. Numbers that the code keeps as
  doubles are rationals: \<^verbatim>\<open>scrollSpeed\<close> and \<^verbatim>\<open>silenceThresholdSeconds\<close> only take multiples
  of 0.5 (slider steps and key steps of 0.5), on which the arithmetic below is exact in
  double precision. \<open>currentVolume = None\<close> is \<^verbatim>\<open>NaN\<close>; \<open>micPermission = None\<close> is
  \<^verbatim>\<open>null\<close>; a ref that is \<open>None\<close> is \<^verbatim>\<open>null\<close>; \<open>videoPreviewRef = Some src\<close> is a
  mounted \<^verbatim>\<open>video\<close> element whose \<^verbatim>\<open>srcObject\<close> is \<open>src\<close>. The typographic settings,
  the device lists, the recorded chunks, the download URL, the audio context and the
  progress bar are left out: none of the functions below reads them. The last two
  fields are the capture requests not yet settled: for each camera request the
  \<^verbatim>\<open>isScreenShareOn\<close> that the closure awaiting it has captured, and the number of display
  requests.
\<close>

record prompter =
  scrollSpeed :: rat
  silenceThresholdSeconds :: rat
  isPlaying :: bool
  isAutoPaused :: bool
  currentVolume :: "rat option"
  micPermission :: "bool option"
  isCameraOn :: bool
  isScreenShareOn :: bool
  isRecording :: bool
  containerRef :: "container option"
  analyserRef :: bool
  lastNoiseTime :: int
  scrollAccumulator :: rat
  videoPreviewRef :: "mediaStream option option"
  mediaStreamRef :: "mediaStream option"
  mediaRecorderRef :: "recorderState option"
  stoppedTracks :: "track set"
  pendingCamera :: "bool list"
  pendingScreen :: nat

text \<open>
  What the platform answers while one callback runs: the clock, the analyser's byte
  frequency data, and the outcome of each capture request (\<open>None\<close> is a rejected
  promise). A microphone request that resolves always carries an audio track, so for
  \<^verbatim>\<open>getUserMedia({audio})\<close> only the grant is recorded.
\<close>

record platform =
  dateNow :: int
  frequencyData :: "8 word list"
  cameraMedia :: "mediaStream option"
  displayMedia :: "mediaStream option"
  micMedia :: bool
  recorderStarts :: bool

text \<open>The state after mounting, \<open>t0\<close> being \<^verbatim>\<open>Date.now()\<close> at the first render.\<close>

definition prompterInit :: "int \<Rightarrow> int \<Rightarrow> prompter" where
  "prompterInit t0 m =
     \<lparr>scrollSpeed = 2, silenceThresholdSeconds = 2, isPlaying = False, isAutoPaused = False,
      currentVolume = Some 0, micPermission = None, isCameraOn = False,
      isScreenShareOn = False, isRecording = False,
      containerRef = Some \<lparr>scrollTop = 0, maxScroll = m\<rparr>, analyserRef = False,
      lastNoiseTime = t0, scrollAccumulator = 0, videoPreviewRef = Some None,
      mediaStreamRef = None, mediaRecorderRef = None, stoppedTracks = {},
      pendingCamera = [], pendingScreen = 0\<rparr>"

subsection \<open>Audio activity\<close>

text \<open>
  \<^verbatim>\<open>sum / dataArray.length\<close>: with an empty array the quotient is \<^verbatim>\<open>NaN\<close>, and
  \<^verbatim>\<open>NaN > 10\<close> is false.
\<close>

definition average :: "8 word list \<Rightarrow> rat option" where
  "average dataArray =
     (if dataArray = [] then None
      else Some (of_nat (sum_list (map unat dataArray)) / of_nat (length dataArray)))"

definition analyzeVolume :: "platform \<Rightarrow> prompter \<Rightarrow> prompter" where
  "analyzeVolume p st =
     (if \<not> analyserRef st then st
      else let avg = average (frequencyData p);
               st1 = st\<lparr>currentVolume := avg\<rparr>
           in if (case avg of None \<Rightarrow> False | Some a \<Rightarrow> a > 10)
              then st1\<lparr>lastNoiseTime := dateNow p, isAutoPaused := False\<rparr>
              else st1)"

text \<open>
  The branch of \<^verbatim>\<open>initAudioAnalysisFromStream\<close> taken when the stream has audio tracks:
  the analyser is stored, the permission recorded, and \<^verbatim>\<open>analyzeVolume()\<close> called.
  The audio context is taken to construct; when it throws, the \<^verbatim>\<open>catch\<close> leaves the
  state as it is.
\<close>

definition connectAnalyser :: "platform \<Rightarrow> prompter \<Rightarrow> prompter" where
  "connectAnalyser p st = analyzeVolume p (st\<lparr>analyserRef := True, micPermission := Some True\<rparr>)"

text \<open>
  \<^verbatim>\<open>initAudioAnalysisOnly\<close> awaits the microphone request, and before the \<^verbatim>\<open>await\<close> it only
  closes the audio context: the function is what runs when that promise settles.
\<close>

definition initAudioAnalysisOnly :: "platform \<Rightarrow> prompter \<Rightarrow> prompter" where
  "initAudioAnalysisOnly p st =
     (if micMedia p then connectAnalyser p st else st\<lparr>micPermission := Some False\<rparr>)"

text \<open>
  \<^verbatim>\<open>isScreenShareOn\<close> in this function is the value seen by the closure that calls it,
  passed as \<open>screenShare\<close>.
\<close>

definition initAudioAnalysisFromStream ::
  "platform \<Rightarrow> bool \<Rightarrow> mediaStream \<Rightarrow> prompter \<Rightarrow> prompter" where
  "initAudioAnalysisFromStream p screenShare stream st =
     (if filter (\<lambda>t. fst t = AudioTrack) stream \<noteq> [] then connectAnalyser p st
      else if screenShare then initAudioAnalysisOnly p st
      else st)"

subsection \<open>Background stream\<close>

definition stopCurrentStream :: "prompter \<Rightarrow> prompter" where
  "stopCurrentStream st =
     (let st1 = (case mediaStreamRef st of
                   None \<Rightarrow> st
                 | Some ms \<Rightarrow> st\<lparr>stoppedTracks := stoppedTracks st \<union> set ms,
                                 mediaStreamRef := None\<rparr>)
      in case videoPreviewRef st1 of
           None \<Rightarrow> st1
         | Some src \<Rightarrow> st1\<lparr>videoPreviewRef := Some None\<rparr>)"

text \<open>\<^verbatim>\<open>if (videoPreviewRef.current) videoPreviewRef.current.srcObject = stream\<close>\<close>

definition attachPreview :: "mediaStream \<Rightarrow> prompter \<Rightarrow> prompter" where
  "attachPreview stream st =
     (case videoPreviewRef st of
        None \<Rightarrow> st
      | Some src \<Rightarrow> st\<lparr>videoPreviewRef := Some (Some stream)\<rparr>)"

text \<open>
  \<^verbatim>\<open>startCamera\<close> and \<^verbatim>\<open>startScreenShare\<close> are \<^verbatim>\<open>async\<close>: a call runs
  \<^verbatim>\<open>stopCurrentStream()\<close> and issues the capture request, and returns at the \<^verbatim>\<open>await\<close>;
  the rest of the body runs when the promise settles, after whatever callbacks ran in
  between. \<open>startCamera\<close> and \<open>startScreenShare\<close> below are the part before the
  \<^verbatim>\<open>await\<close>, \<open>startCameraSettled\<close> and \<open>startScreenShareSettled\<close> the part after it
  (with the \<^verbatim>\<open>catch\<close>). Requests of one kind settle in the order issued.
\<close>

definition startCamera :: "prompter \<Rightarrow> prompter" where
  "startCamera st =
     (let st1 = stopCurrentStream st
      in st1\<lparr>pendingCamera := pendingCamera st1 @ [isScreenShareOn st1]\<rparr>)"

definition startCameraSettled :: "platform \<Rightarrow> prompter \<Rightarrow> prompter" where
  "startCameraSettled p st =
     (case pendingCamera st of
        [] \<Rightarrow> st
      | screenShare # rest \<Rightarrow>
          (let st1 = st\<lparr>pendingCamera := rest\<rparr>
           in case cameraMedia p of
                None \<Rightarrow> st1\<lparr>isCameraOn := False\<rparr>
              | Some stream \<Rightarrow>
                  initAudioAnalysisFromStream p screenShare stream
                    (attachPreview stream (st1\<lparr>mediaStreamRef := Some stream\<rparr>))))"

definition startScreenShare :: "prompter \<Rightarrow> prompter" where
  "startScreenShare st =
     (let st1 = stopCurrentStream st
      in st1\<lparr>pendingScreen := Suc (pendingScreen st1)\<rparr>)"

text \<open>
  \<^verbatim>\<open>stream.getVideoTracks()[0].onended = ...\<close> throws when the stream has no video track;
  the \<^verbatim>\<open>catch\<close> then switches the flag off, as for a rejected request.
\<close>

definition startScreenShareSettled :: "platform \<Rightarrow> prompter \<Rightarrow> prompter" where
  "startScreenShareSettled p st =
     (case pendingScreen st of
        0 \<Rightarrow> st
      | Suc n \<Rightarrow>
          (let st1 = st\<lparr>pendingScreen := n\<rparr>
           in case displayMedia p of
                None \<Rightarrow> st1\<lparr>isScreenShareOn := False\<rparr>
              | Some stream \<Rightarrow>
                  if filter (\<lambda>t. fst t = VideoTrack) stream = []
                  then st1\<lparr>isScreenShareOn := False\<rparr>
                  else initAudioAnalysisOnly p
                         (attachPreview stream (st1\<lparr>mediaStreamRef := Some stream\<rparr>))))"

text \<open>The effect with dependencies \<^verbatim>\<open>[isCameraOn, isScreenShareOn, selectedVideoId, selectedAudioId]\<close>.\<close>

definition modeEffect :: "platform \<Rightarrow> prompter \<Rightarrow> prompter" where
  "modeEffect p st =
     (if isCameraOn st then startCamera st
      else if isScreenShareOn st then startScreenShare st
      else initAudioAnalysisOnly p (stopCurrentStream st))"

text \<open>
  React runs the effect after a callback that has changed one of the two flags;
  \<open>before\<close> is the state in which the callback started.
\<close>

definition rerunModeEffect :: "platform \<Rightarrow> prompter \<Rightarrow> prompter \<Rightarrow> prompter" where
  "rerunModeEffect p before st =
     (if (isCameraOn st, isScreenShareOn st) \<noteq> (isCameraOn before, isScreenShareOn before)
      then modeEffect p st else st)"

definition handleToggleCamera :: "prompter \<Rightarrow> prompter" where
  "handleToggleCamera st =
     (let st1 = (if \<not> isCameraOn st then st\<lparr>isScreenShareOn := False\<rparr> else st)
      in st1\<lparr>isCameraOn := \<not> isCameraOn st\<rparr>)"

definition handleToggleScreen :: "prompter \<Rightarrow> prompter" where
  "handleToggleScreen st =
     (let st1 = (if \<not> isScreenShareOn st then st\<lparr>isCameraOn := False\<rparr> else st)
      in st1\<lparr>isScreenShareOn := \<not> isScreenShareOn st\<rparr>)"

text \<open>The \<^verbatim>\<open>onended\<close> callback that \<^verbatim>\<open>startScreenShare\<close> registers.\<close>

definition screenEnded :: "platform \<Rightarrow> prompter \<Rightarrow> prompter" where
  "screenEnded p st = initAudioAnalysisOnly p (stopCurrentStream (st\<lparr>isScreenShareOn := False\<rparr>))"

subsection \<open>Recording\<close>

text \<open>
  \<open>recorderStarts\<close> says whether \<^verbatim>\<open>new MediaRecorder(...)\<close> and \<^verbatim>\<open>start()\<close> went through;
  otherwise the \<^verbatim>\<open>catch\<close> raises the alert and changes nothing.
\<close>

definition startRecording :: "platform \<Rightarrow> prompter \<Rightarrow> prompter" where
  "startRecording p st =
     (case mediaStreamRef st of
        None \<Rightarrow> st
      | Some ms \<Rightarrow> if recorderStarts p
                   then st\<lparr>mediaRecorderRef := Some Recording, isRecording := True\<rparr>
                   else st)"

definition stopRecording :: "prompter \<Rightarrow> prompter" where
  "stopRecording st =
     (case mediaRecorderRef st of
        None \<Rightarrow> st
      | Some r \<Rightarrow> st\<lparr>mediaRecorderRef := Some Inactive, isRecording := False,
                     isPlaying := False\<rparr>)"

definition toggleRecording :: "platform \<Rightarrow> prompter \<Rightarrow> prompter" where
  "toggleRecording p st = (if isRecording st then stopRecording st else startRecording p st)"

subsection \<open>Playback\<close>

datatype key = Space | ArrowUp | ArrowDown | Plus | Minus | OtherKey

definition handleKeyDown :: "key \<Rightarrow> prompter \<Rightarrow> prompter" where
  "handleKeyDown k st =
     (case k of
        Space \<Rightarrow> st\<lparr>isPlaying := \<not> isPlaying st\<rparr>
      | ArrowUp \<Rightarrow> (case containerRef st of
                      None \<Rightarrow> st
                    | Some c \<Rightarrow> st\<lparr>containerRef := Some (setScrollTop (scrollTop c - 100) c)\<rparr>)
      | ArrowDown \<Rightarrow> (case containerRef st of
                        None \<Rightarrow> st
                      | Some c \<Rightarrow> st\<lparr>containerRef := Some (setScrollTop (scrollTop c + 100) c)\<rparr>)
      | Plus \<Rightarrow> st\<lparr>scrollSpeed := min 20 (scrollSpeed st + 1 / 2)\<rparr>
      | Minus \<Rightarrow> st\<lparr>scrollSpeed := max 0 (scrollSpeed st - 1 / 2)\<rparr>
      | OtherKey \<Rightarrow> st)"

text \<open>The play button: \<^verbatim>\<open>onClick={() => setIsPlaying(!isPlaying)}\<close>.\<close>

definition playButton :: "prompter \<Rightarrow> prompter" where
  "playButton st = st\<lparr>isPlaying := \<not> isPlaying st\<rparr>"

text \<open>
  \<^verbatim>\<open>micPermission && timeSinceNoise > silenceLimitMs\<close>: \<^verbatim>\<open>null\<close> and \<^verbatim>\<open>false\<close> both make
  it falsy.
\<close>

definition shouldPauseForSilence :: "platform \<Rightarrow> prompter \<Rightarrow> bool" where
  "shouldPauseForSilence p st =
     (let timeSinceNoise = dateNow p - lastNoiseTime st;
          silenceLimitMs = silenceThresholdSeconds st * 1000
      in micPermission st = Some True \<and> of_int timeSinceNoise > silenceLimitMs)"

text \<open>One call of \<^verbatim>\<open>animate\<close> (the rescheduling apart).\<close>

definition animate :: "platform \<Rightarrow> prompter \<Rightarrow> prompter" where
  "animate p st =
     (case containerRef st of
        None \<Rightarrow> st
      | Some c \<Rightarrow>
          if isPlaying st then
            if shouldPauseForSilence p st then st\<lparr>isAutoPaused := True\<rparr>
            else let st1 = st\<lparr>isAutoPaused := False,
                              scrollAccumulator := scrollAccumulator st + scrollSpeed st * (1 / 2)\<rparr>
                 in if scrollAccumulator st1 \<ge> 1
                    then let pixelsToScroll = \<lfloor>scrollAccumulator st1\<rfloor>
                         in st1\<lparr>containerRef := Some (setScrollTop (scrollTop c + pixelsToScroll) c),
                                scrollAccumulator := scrollAccumulator st1 - of_int pixelsToScroll\<rparr>
                    else st1
          else st)"

text \<open>
  What the views show of the auto-pause flag. The overlay is
  \<^verbatim>\<open>{isPlaying && isAutoPaused && (<div ...>Listening...</div>)}\<close>; the volume meter of the
  settings panel is
  \<^verbatim>\<open>{micPermission && (... className={... isAutoPaused ? 'bg-red-500' : 'bg-green-500'} ...)}\<close>.
\<close>

definition statusOverlay :: "prompter \<Rightarrow> bool" where
  "statusOverlay st \<longleftrightarrow> isPlaying st \<and> isAutoPaused st"

definition volumeMeterRed :: "prompter \<Rightarrow> bool" where
  "volumeMeterRed st \<longleftrightarrow> micPermission st = Some True \<and> isAutoPaused st"

text \<open>Consecutive animation frames, one platform reading per frame.\<close>

fun frames :: "platform list \<Rightarrow> prompter \<Rightarrow> prompter" where
  "frames [] st = st"
| "frames (p # ps) st = frames ps (animate p st)"

text \<open>
  The callbacks of the component as events; \<open>CameraSettled\<close> and \<open>ScreenSettled\<close> are
  the promises of the capture requests settling.
\<close>

datatype event =
    Frame platform
  | Sample platform
  | KeyDown key
  | PlayButton
  | ToggleRecording platform
  | ToggleCamera platform
  | ToggleScreen platform
  | CameraSettled platform
  | ScreenSettled platform
  | ScreenEnded platform
  | DeviceChanged platform
  | AudioSetup platform

fun prompterStep :: "event \<Rightarrow> prompter \<Rightarrow> prompter" where
  "prompterStep (Frame p) st = animate p st"
| "prompterStep (Sample p) st = analyzeVolume p st"
| "prompterStep (KeyDown k) st = handleKeyDown k st"
| "prompterStep PlayButton st = playButton st"
| "prompterStep (ToggleRecording p) st = toggleRecording p st"
| "prompterStep (ToggleCamera p) st = rerunModeEffect p st (handleToggleCamera st)"
| "prompterStep (ToggleScreen p) st = rerunModeEffect p st (handleToggleScreen st)"
| "prompterStep (CameraSettled p) st = rerunModeEffect p st (startCameraSettled p st)"
| "prompterStep (ScreenSettled p) st = rerunModeEffect p st (startScreenShareSettled p st)"
| "prompterStep (ScreenEnded p) st = rerunModeEffect p st (screenEnded p st)"
| "prompterStep (DeviceChanged p) st = modeEffect p st"
| "prompterStep (AudioSetup p) st = initAudioAnalysisOnly p st"

fun prompterRun :: "event list \<Rightarrow> prompter \<Rightarrow> prompter" where
  "prompterRun [] st = st"
| "prompterRun (e # es) st = prompterRun es (prompterStep e st)"

text \<open>
  The background flags exclude each other.
\<close>

definition exclusive :: "prompter \<Rightarrow> bool" where
  "exclusive st \<longleftrightarrow> \<not> (isCameraOn st \<and> isScreenShareOn st)"

section \<open>Example inputs\<close>

text \<open>
  Platform readings and states at which the theorems below are instantiated: a silent
  microphone at time 0, a frame five seconds later, a loud sample, and the frame after it.
\<close>

definition quietMic :: platform where
  "quietMic = \<lparr>dateNow = 0, frequencyData = [], cameraMedia = None, displayMedia = None,
               micMedia = True, recorderStarts = True\<rparr>"

definition laterFrame :: platform where
  "laterFrame = \<lparr>dateNow = 5000, frequencyData = [], cameraMedia = None, displayMedia = None,
               micMedia = True, recorderStarts = True\<rparr>"



text \<open>
  Playing at speed 1 without a microphone answer yet, and playing with the microphone
  granted.
\<close>

definition speedOne :: prompter where
  "speedOne = prompterRun [KeyDown Space, KeyDown Minus, KeyDown Minus] (prompterInit 0 1000)"

definition listening :: prompter where
  "listening = prompterRun [AudioSetup quietMic, KeyDown Space] (prompterInit 0 1000)"

definition twoScripts :: app where
  "twoScripts = \<lparr>scripts = [\<lparr>id_script = ''b'', title = ''Second'', content = ''two'', lastModified = 2\<rparr>,
                             \<lparr>id_script = ''a'', title = ''First'', content = ''one'', lastModified = 1\<rparr>],
                  activeScriptId = ''b''\<rparr>"

definition oneScript :: app where
  "oneScript = \<lparr>scripts = [\<lparr>id_script = ''a'', title = ''First'', content = ''one'', lastModified = 1\<rparr>],
                 activeScriptId = ''a''\<rparr>"

text \<open>
  A camera stream and a screen stream, the platform readings that deliver them, and the
  events of two capture requests that cross: the camera is switched on, the screen share
  is switched on before the camera request has settled, then the camera request
  resolves, then the display request.
\<close>

definition cameraStream :: mediaStream where
  "cameraStream = [(VideoTrack, 1), (AudioTrack, 2)]"

definition screenStream :: mediaStream where
  "screenStream = [(VideoTrack, 7)]"

definition cameraGranted :: platform where
  "cameraGranted = \<lparr>dateNow = 10, frequencyData = [], cameraMedia = Some cameraStream,
                     displayMedia = None, micMedia = True, recorderStarts = True\<rparr>"

definition screenGranted :: platform where
  "screenGranted = \<lparr>dateNow = 20, frequencyData = [], cameraMedia = None,
                     displayMedia = Some screenStream, micMedia = True, recorderStarts = True\<rparr>"

definition crossedRequests :: "event list" where
  "crossedRequests =
     [ToggleCamera quietMic, ToggleScreen quietMic, CameraSettled cameraGranted,
      ScreenSettled screenGranted]"

section \<open>Properties of the script store\<close>

lemma length_update [simp]: "length (scripts (handleUpdateScript c now st)) = length (scripts st)"
  by (simp add: handleUpdateScript_def)

lemma length_rename [simp]: "length (scripts (handleRenameScript t now st)) = length (scripts st)"
  by (simp add: handleRenameScript_def)

lemma ids_update [simp]:
  "map id_script (scripts (handleUpdateScript c now st)) = map id_script (scripts st)"
  by (simp add: handleUpdateScript_def)

lemma ids_rename [simp]:
  "map id_script (scripts (handleRenameScript t now st)) = map id_script (scripts st)"
  by (simp add: handleRenameScript_def)

lemma active_update [simp]: "activeScriptId (handleUpdateScript c now st) = activeScriptId st"
  by (simp add: handleUpdateScript_def)

lemma active_rename [simp]: "activeScriptId (handleRenameScript t now st) = activeScriptId st"
  by (simp add: handleRenameScript_def)

lemma length_titleChange [simp]:
  "length (scripts (onTitleChange typed now st)) = length (scripts st)"
  by (simp add: onTitleChange_def)

lemma ids_titleChange [simp]:
  "map id_script (scripts (onTitleChange typed now st)) = map id_script (scripts st)"
  by (simp add: onTitleChange_def)

lemma active_titleChange [simp]: "activeScriptId (onTitleChange typed now st) = activeScriptId st"
  by (simp add: onTitleChange_def)

lemma migrate_toStored_id [simp]: "id_script (migrate (toStored s)) = id_script s"
  by (simp add: migrate_def toStored_def)

lemma ids_reload [simp]:
  "map id_script (scriptsInit (saveScripts xs) uuid now) = map id_script xs"
  by (simp add: scriptsInit_def saveScripts_def)

lemma length_reload [simp]:
  "length (scriptsInit (saveScripts xs) uuid now) = length xs"
  by (simp add: scriptsInit_def saveScripts_def)

lemma length_filter_distinct:
  "distinct (map f xs) \<Longrightarrow>
   length (filter (\<lambda>s. f s \<noteq> i) xs) = length xs - (if i \<in> f ` set xs then 1 else 0)"
proof (induction xs)
  case Nil
  then show ?case by simp
next
  case (Cons x xs)
  then show ?case
    by (cases "f x = i") (auto simp: image_iff dest: length_pos_if_in_set)
qed

lemma storeInv_delete:
  assumes "storeInv st"
  shows "storeInv (snd (handleDeleteScript i n1 n2 st))"
proof (cases "length (scripts st) \<le> 1")
  case True
  with assms show ?thesis
    by (simp add: handleDeleteScript_def storeInv_def)
next
  case False
  let ?new = "filter (\<lambda>s. id_script s \<noteq> i) (scripts st)"
  from assms have d: "distinct (map id_script (scripts st))"
    by (simp add: storeInv_def)
  have len: "length ?new = length (scripts st) - (if i \<in> id_script ` set (scripts st) then 1 else 0)"
    using d by (rule length_filter_distinct)
  have dn: "distinct (map id_script ?new)"
    using d by (simp add: distinct_map_filter)
  have "1 \<le> length ?new" "length ?new \<le> MAX_SCRIPTS"
    using len False assms by (auto simp: storeInv_def)
  moreover have "scripts (snd (handleDeleteScript i n1 n2 st)) = ?new"
    using False by (simp add: handleDeleteScript_def Let_def split: list.splits)
  ultimately show ?thesis using dn by (simp add: storeInv_def)
qed

lemma storeInv_step: "storeInv st \<Longrightarrow> uuidFresh a st \<Longrightarrow> storeInv (step a st)"
proof (cases a)
  case (Delete i n1 n2)
  assume "storeInv st"
  then show ?thesis unfolding Delete step.simps by (rule storeInv_delete)
next
  case (Create u n)
  assume "storeInv st" "uuidFresh a st"
  then show ?thesis using Create
    by (auto simp: storeInv_def handleCreateScript_def MAX_SCRIPTS_def)
next
  case (Reload u n)
  assume "storeInv st"
  then show ?thesis using Reload
    by (simp add: storeInv_def appInit_def Let_def)
qed (auto simp: storeInv_def)

lemma storeInv_run:
  "storeInv st \<Longrightarrow> admissible uuidFresh as st \<Longrightarrow> storeInv (run as st)"
  by (induction as arbitrary: st) (auto intro: storeInv_step)

lemma storeInv_default:
  "saved = NoItem \<or> saved = Unparsable \<Longrightarrow> storeInv (appInit saved uuid now)"
  by (auto simp: storeInv_def appInit_def Let_def scriptsInit_def MAX_SCRIPTS_def)


lemma migrate_toStored:
  "migrate (toStored s) = (if title s = [] then s\<lparr>title := backfillTitle (content s)\<rparr> else s)"
  by (simp add: migrate_def toStored_def)

lemma reload_scripts:
  "scriptsInit (saveScripts xs) uuid now =
   map (\<lambda>s. if title s = [] then s\<lparr>title := backfillTitle (content s)\<rparr> else s) xs"
  by (simp add: scriptsInit_def saveScripts_def migrate_toStored)



lemma delete_many:
  assumes d: "distinct (map id_script (scripts st))" and l: "1 < length (scripts st)"
  shows "fst (handleDeleteScript i n1 n2 st) = None"
    and "scripts (snd (handleDeleteScript i n1 n2 st)) = filter (\<lambda>s. id_script s \<noteq> i) (scripts st)"
    and "activeScriptId (snd (handleDeleteScript i n1 n2 st)) =
         (if i = activeScriptId st
          then id_script (hd (filter (\<lambda>s. id_script s \<noteq> i) (scripts st)))
          else activeScriptId st)"
proof -
  let ?new = "filter (\<lambda>s. id_script s \<noteq> i) (scripts st)"
  have "length ?new = length (scripts st) - (if i \<in> id_script ` set (scripts st) then 1 else 0)"
    using d by (rule length_filter_distinct)
  with l have "?new \<noteq> []" by (auto split: if_splits)
  then obtain s ss where n: "?new = s # ss" by (cases ?new) auto
  from l n show "fst (handleDeleteScript i n1 n2 st) = None"
    by (simp add: handleDeleteScript_def Let_def)
  from l n show "scripts (snd (handleDeleteScript i n1 n2 st)) = ?new"
    by (simp add: handleDeleteScript_def Let_def)
  show "activeScriptId (snd (handleDeleteScript i n1 n2 st)) =
         (if i = activeScriptId st then id_script (hd ?new) else activeScriptId st)"
  proof (cases "i = activeScriptId st")
    case True
    have "id_script (hd ?new) = id_script s" by (simp add: n)
    moreover have "activeScriptId (snd (handleDeleteScript i n1 n2 st)) = id_script s"
      using l n True by (simp add: handleDeleteScript_def Let_def del: filter.simps)
    ultimately show ?thesis using True by simp
  next
    case False
    with l show ?thesis by (simp add: handleDeleteScript_def Let_def)
  qed
qed

lemma delete_sole:
  assumes l: "length (scripts st) = 1" and a: "activeScriptId st \<in> id_script ` set (scripts st)"
  shows "\<exists>s. scripts st = [s] \<and> handleDeleteScript i n1 n2 st =
           (None, st\<lparr>scripts := [s\<lparr>content := '''', title := ''Untitled Script'',
                                     lastModified := n2\<rparr>]\<rparr>)"
proof -
  from l obtain s where s: "scripts st = [s]"
    by (cases "scripts st") auto
  with a have "id_script s = activeScriptId st" by simp
  with s show ?thesis
    by (simp add: handleDeleteScript_def handleUpdateScript_def handleRenameScript_def)
qed








lemma reload_exact_nonempty_titles:
  "\<forall>s \<in> set xs. title s \<noteq> [] \<Longrightarrow> scriptsInit (saveScripts xs) uuid now = xs"
  by (simp add: reload_scripts map_idI)

text \<open>
  Claim C5 at an input where the code departs from it. The user types "Hello" as the
  content and clears the title field; the collection is saved with the title \<open>''''\<close>, a
  record that has its title field. On the next visit the migration finds the title
  falsy and rewrites it to the first line of the content: the title comes back as
  "Hello", not as it was saved.
\<close>

theorem empty_title_rewritten_on_reload:
  "admissible fromEditor [Update ''Hello'' 1, TitleChange '''' 2] (appInit NoItem ''a'' 0) \<and>
   scripts (run [Update ''Hello'' 1, TitleChange '''' 2] (appInit NoItem ''a'' 0)) =
     [\<lparr>id_script = ''a'', title = '''', content = ''Hello'', lastModified = 2\<rparr>] \<and>
   saveScripts (scripts (run [Update ''Hello'' 1, TitleChange '''' 2] (appInit NoItem ''a'' 0))) =
     Parsed [\<lparr>s_id = ''a'', s_title = Some '''', s_content = ''Hello'', s_lastModified = 2\<rparr>] \<and>
   scripts (run [Update ''Hello'' 1, TitleChange '''' 2, Reload ''u'' 3] (appInit NoItem ''a'' 0)) =
     [\<lparr>id_script = ''a'', title = ''Hello'', content = ''Hello'', lastModified = 2\<rparr>]"
  by (simp add: appInit_def scriptsInit_def activeInit_def handleUpdateScript_def
      onTitleChange_def titleInput_def handleRenameScript_def saveScripts_def toStored_def
      migrate_def backfillTitle_def firstLine30_def)

text \<open>
  Claim C6. With distinct identifiers and the active identifier among them: deleting
  when one script remains leaves one script, with empty content and the title
  "Untitled Script"; deleting a listed identifier when several scripts exist removes
  exactly that entry, and the active script becomes the first remaining one if the
  deleted script was active and stays the same otherwise.
\<close>

theorem delete_semantics:
  assumes "distinct (map id_script (scripts st))"
    and "activeScriptId st \<in> id_script ` set (scripts st)"
  shows "(length (scripts st) = 1 \<longrightarrow>
            fst (handleDeleteScript i n1 n2 st) = None \<and>
            length (scripts (snd (handleDeleteScript i n1 n2 st))) = 1 \<and>
            content (hd (scripts (snd (handleDeleteScript i n1 n2 st)))) = '''' \<and>
            title (hd (scripts (snd (handleDeleteScript i n1 n2 st)))) = ''Untitled Script'' \<and>
            activeScriptId (snd (handleDeleteScript i n1 n2 st)) = activeScriptId st) \<and>
         (1 < length (scripts st) \<and> i \<in> id_script ` set (scripts st) \<longrightarrow>
            fst (handleDeleteScript i n1 n2 st) = None \<and>
            scripts (snd (handleDeleteScript i n1 n2 st)) =
              filter (\<lambda>s. id_script s \<noteq> i) (scripts st) \<and>
            length (scripts (snd (handleDeleteScript i n1 n2 st))) = length (scripts st) - 1 \<and>
            activeScriptId (snd (handleDeleteScript i n1 n2 st)) =
              (if i = activeScriptId st
               then id_script (hd (scripts (snd (handleDeleteScript i n1 n2 st))))
               else activeScriptId st))"
proof (intro conjI impI)
  assume l: "length (scripts st) = 1"
  from delete_sole[OF l assms(2), of i n1 n2] obtain s where
    "handleDeleteScript i n1 n2 st =
       (None, st\<lparr>scripts := [s\<lparr>content := '''', title := ''Untitled Script'', lastModified := n2\<rparr>]\<rparr>)"
    by blast
  then show "fst (handleDeleteScript i n1 n2 st) = None"
    "length (scripts (snd (handleDeleteScript i n1 n2 st))) = 1"
    "content (hd (scripts (snd (handleDeleteScript i n1 n2 st)))) = ''''"
    "title (hd (scripts (snd (handleDeleteScript i n1 n2 st)))) = ''Untitled Script''"
    "activeScriptId (snd (handleDeleteScript i n1 n2 st)) = activeScriptId st"
    by simp_all
next
  assume h: "1 < length (scripts st) \<and> i \<in> id_script ` set (scripts st)"
  then have l: "1 < length (scripts st)" by simp
  note dm = delete_many[OF assms(1) l, of i n1 n2]
  show "fst (handleDeleteScript i n1 n2 st) = None" by (rule dm)
  show "scripts (snd (handleDeleteScript i n1 n2 st)) = filter (\<lambda>s. id_script s \<noteq> i) (scripts st)"
    by (rule dm)
  show "length (scripts (snd (handleDeleteScript i n1 n2 st))) = length (scripts st) - 1"
    using h length_filter_distinct[OF assms(1), of i] by (simp add: dm(2))
  show "activeScriptId (snd (handleDeleteScript i n1 n2 st)) =
              (if i = activeScriptId st
               then id_script (hd (scripts (snd (handleDeleteScript i n1 n2 st))))
               else activeScriptId st)"
    unfolding dm(2) by (rule dm(3))
qed

theorem delete_semantics_witness:
  "scripts (snd (handleDeleteScript ''a'' 5 6 oneScript)) =
     [\<lparr>id_script = ''a'', title = ''Untitled Script'', content = '''', lastModified = 6\<rparr>] \<and>
   scripts (snd (handleDeleteScript ''b'' 5 6 twoScripts)) = scripts oneScript \<and>
   activeScriptId (snd (handleDeleteScript ''b'' 5 6 twoScripts)) = ''a'' \<and>
   activeScriptId (snd (handleDeleteScript ''a'' 5 6 twoScripts)) = ''b''"
  using delete_semantics [of oneScript "''a''" 5 6] delete_semantics [of twoScripts "''b''" 5 6]
    delete_semantics [of twoScripts "''a''" 5 6]
  by (simp add: oneScript_def twoScripts_def handleDeleteScript_def handleUpdateScript_def
      handleRenameScript_def)

text \<open>
  Claim C7. From the default collection, after any sequence of update, rename, create,
  delete, select and reload in which created identifiers are fresh, the collection
  holds between 1 and 10 scripts; creating with 10 or more scripts changes nothing.
\<close>

theorem script_count_invariant:
  assumes "saved = NoItem \<or> saved = Unparsable"
    and "admissible uuidFresh as (appInit saved uuid now)"
  shows "1 \<le> length (scripts (run as (appInit saved uuid now))) \<and>
         length (scripts (run as (appInit saved uuid now))) \<le> 10 \<and>
         (\<forall>st u n. length (scripts st) \<ge> 10 \<longrightarrow> handleCreateScript u n st = st)"
proof -
  have "storeInv (run as (appInit saved uuid now))"
    using assms by (intro storeInv_run storeInv_default)
  then show ?thesis
    by (simp add: storeInv_def MAX_SCRIPTS_def handleCreateScript_def)
qed

theorem script_count_invariant_witness:
  "admissible uuidFresh [Create ''b'' 1, Delete ''b'' 2 3, Delete ''a'' 4 5] (appInit NoItem ''a'' 0) \<and>
   length (scripts (run [Create ''b'' 1, Delete ''b'' 2 3, Delete ''a'' 4 5] (appInit NoItem ''a'' 0))) = 1"
  using script_count_invariant
    [of NoItem "[Create ''b'' 1, Delete ''b'' 2 3, Delete ''a'' 4 5]" "''a''" 0]
  by (simp add: appInit_def scriptsInit_def activeInit_def handleCreateScript_def MAX_SCRIPTS_def
      handleDeleteScript_def handleUpdateScript_def handleRenameScript_def)

text \<open>
  Claim C10. Update and rename keep the length of the collection and the active
  identifier; at every position the script is rewritten (content or title replaced,
  lastModified set to the clock reading) if its identifier is the active one and is
  left as it was otherwise.
\<close>

theorem update_rename_frame:
  "length (scripts (handleUpdateScript c now st)) = length (scripts st) \<and>
   activeScriptId (handleUpdateScript c now st) = activeScriptId st \<and>
   (\<forall>k < length (scripts st).
      scripts (handleUpdateScript c now st) ! k =
        (if id_script (scripts st ! k) = activeScriptId st
         then (scripts st ! k)\<lparr>content := c, lastModified := now\<rparr>
         else scripts st ! k)) \<and>
   length (scripts (handleRenameScript t now st)) = length (scripts st) \<and>
   activeScriptId (handleRenameScript t now st) = activeScriptId st \<and>
   (\<forall>k < length (scripts st).
      scripts (handleRenameScript t now st) ! k =
        (if id_script (scripts st ! k) = activeScriptId st
         then (scripts st ! k)\<lparr>title := t, lastModified := now\<rparr>
         else scripts st ! k))"
  by (simp add: handleUpdateScript_def handleRenameScript_def)

theorem update_rename_frame_witness:
  "scripts (handleUpdateScript ''new text'' 9 twoScripts) ! 0 =
     \<lparr>id_script = ''b'', title = ''Second'', content = ''new text'', lastModified = 9\<rparr> \<and>
   scripts (handleUpdateScript ''new text'' 9 twoScripts) ! 1 = scripts twoScripts ! 1 \<and>
   scripts (handleRenameScript ''Outro'' 9 twoScripts) ! 1 = scripts twoScripts ! 1"
  using update_rename_frame [of "''new text''" 9 twoScripts "''Outro''"]
  by (simp add: twoScripts_def)

section \<open>Properties of the prompter\<close>

lemma average_loud: "average [200, 100] = Some 150"
  by (simp add: average_def)



lemma auto_analyzeVolume: "isAutoPaused (analyzeVolume p st) \<Longrightarrow> isAutoPaused st"
  by (auto simp: analyzeVolume_def Let_def split: if_splits)

lemma auto_connectAnalyser: "isAutoPaused (connectAnalyser p st) \<Longrightarrow> isAutoPaused st"
  by (auto simp: connectAnalyser_def dest: auto_analyzeVolume)

lemma auto_initAudioAnalysisOnly: "isAutoPaused (initAudioAnalysisOnly p st) \<Longrightarrow> isAutoPaused st"
  by (auto simp: initAudioAnalysisOnly_def split: if_splits dest: auto_connectAnalyser)

lemma auto_initAudioAnalysisFromStream:
  "isAutoPaused (initAudioAnalysisFromStream p b ms st) \<Longrightarrow> isAutoPaused st"
  by (auto simp: initAudioAnalysisFromStream_def split: if_splits
      dest: auto_connectAnalyser auto_initAudioAnalysisOnly)

lemma auto_stopCurrentStream [simp]: "isAutoPaused (stopCurrentStream st) = isAutoPaused st"
  by (simp add: stopCurrentStream_def Let_def split: option.splits)

lemma auto_attachPreview [simp]: "isAutoPaused (attachPreview ms st) = isAutoPaused st"
  by (simp add: attachPreview_def split: option.splits)

lemma auto_startCamera [simp]: "isAutoPaused (startCamera st) = isAutoPaused st"
  by (simp add: startCamera_def Let_def)

lemma auto_startScreenShare [simp]: "isAutoPaused (startScreenShare st) = isAutoPaused st"
  by (simp add: startScreenShare_def Let_def)

lemma auto_startCameraSettled: "isAutoPaused (startCameraSettled p st) \<Longrightarrow> isAutoPaused st"
  by (auto simp: startCameraSettled_def Let_def split: list.splits option.splits
      dest!: auto_initAudioAnalysisFromStream)

lemma auto_startScreenShareSettled:
  "isAutoPaused (startScreenShareSettled p st) \<Longrightarrow> isAutoPaused st"
  by (auto simp: startScreenShareSettled_def Let_def split: nat.splits option.splits if_splits
      dest!: auto_initAudioAnalysisOnly)

lemma auto_modeEffect: "isAutoPaused (modeEffect p st) \<Longrightarrow> isAutoPaused st"
  by (auto simp: modeEffect_def split: if_splits dest!: auto_initAudioAnalysisOnly)

lemma auto_rerunModeEffect: "isAutoPaused (rerunModeEffect p b st) \<Longrightarrow> isAutoPaused st"
  by (auto simp: rerunModeEffect_def split: if_splits dest: auto_modeEffect)

lemma auto_handleToggleCamera [simp]: "isAutoPaused (handleToggleCamera st) = isAutoPaused st"
  by (simp add: handleToggleCamera_def Let_def)

lemma auto_handleToggleScreen [simp]: "isAutoPaused (handleToggleScreen st) = isAutoPaused st"
  by (simp add: handleToggleScreen_def Let_def)

lemma auto_screenEnded: "isAutoPaused (screenEnded p st) \<Longrightarrow> isAutoPaused st"
  by (auto simp: screenEnded_def dest!: auto_initAudioAnalysisOnly)

lemma auto_stopRecording [simp]: "isAutoPaused (stopRecording st) = isAutoPaused st"
  by (simp add: stopRecording_def split: option.splits)

lemma auto_toggleRecording [simp]: "isAutoPaused (toggleRecording p st) = isAutoPaused st"
  by (simp add: toggleRecording_def startRecording_def split: option.splits)

lemma auto_handleKeyDown [simp]: "isAutoPaused (handleKeyDown k st) = isAutoPaused st"
  by (simp add: handleKeyDown_def split: key.splits option.splits)

lemma auto_animate:
  "isAutoPaused (animate p st) \<Longrightarrow> \<not> isAutoPaused st \<Longrightarrow> isPlaying st \<and> isPlaying (animate p st)"
  by (auto simp: animate_def Let_def split: option.splits if_splits)

lemma speedOne_eq:
  "speedOne = (prompterInit 0 1000)\<lparr>isPlaying := True, scrollSpeed := 1\<rparr>"
  by (simp add: speedOne_def prompterInit_def handleKeyDown_def)

lemma listening_eq:
  "listening = (prompterInit 0 1000)\<lparr>isPlaying := True, analyserRef := True,
       micPermission := Some True, currentVolume := None\<rparr>"
  by (simp add: listening_def prompterInit_def quietMic_def handleKeyDown_def
      initAudioAnalysisOnly_def connectAnalyser_def analyzeVolume_def average_def)

text \<open>
  Only an animation frame evaluated while playing switches \<open>isAutoPaused\<close> on, and
  playback is still on after that frame; Space, the play button and stopping a
  recording leave the flag as it is.
\<close>

lemma autoPaused_switched_on_by_playing_frame:
  "(\<not> isAutoPaused st \<and> isAutoPaused (prompterStep e st) \<longrightarrow>
      (\<exists>p. e = Frame p) \<and> isPlaying st \<and> isPlaying (prompterStep e st)) \<and>
   isAutoPaused (handleKeyDown Space st) = isAutoPaused st \<and>
   isAutoPaused (playButton st) = isAutoPaused st \<and>
   isAutoPaused (stopRecording st) = isAutoPaused st"
proof -
  have "(\<exists>p. e = Frame p) \<and> isPlaying st \<and> isPlaying (prompterStep e st)"
    if n: "\<not> isAutoPaused st" and a: "isAutoPaused (prompterStep e st)"
  proof (cases e)
    case (Frame p)
    with n a auto_animate[of p st] show ?thesis by simp
  next
    case (Sample p)
    with n a auto_analyzeVolume[of p st] show ?thesis by simp
  next
    case (KeyDown k)
    with n a show ?thesis by simp
  next
    case PlayButton
    with n a show ?thesis by (simp add: playButton_def)
  next
    case (ToggleRecording p)
    with n a show ?thesis by simp
  next
    case (ToggleCamera p)
    with n a auto_rerunModeEffect[of p st "handleToggleCamera st"] show ?thesis by simp
  next
    case (ToggleScreen p)
    with n a auto_rerunModeEffect[of p st "handleToggleScreen st"] show ?thesis by simp
  next
    case (CameraSettled p)
    with n a auto_rerunModeEffect[of p st "startCameraSettled p st"]
      auto_startCameraSettled[of p st]
    show ?thesis by auto
  next
    case (ScreenSettled p)
    with n a auto_rerunModeEffect[of p st "startScreenShareSettled p st"]
      auto_startScreenShareSettled[of p st]
    show ?thesis by auto
  next
    case (ScreenEnded p)
    with n a auto_rerunModeEffect[of p st "screenEnded p st"] auto_screenEnded[of p st]
    show ?thesis by auto
  next
    case (DeviceChanged p)
    with n a auto_modeEffect[of p st] show ?thesis by simp
  next
    case (AudioSetup p)
    with n a auto_initAudioAnalysisOnly[of p st] show ?thesis by simp
  qed
  then show ?thesis by (simp add: playButton_def)
qed

text \<open>
  Claim C3 at an input where the code departs from it. The microphone is granted, Space
  starts playback, a frame finds five seconds of silence and sets \<open>isAutoPaused\<close>, Space
  stops playback. The stop does not clear the flag, as the playing branch of \<^verbatim>\<open>animate\<close>
  and \<^verbatim>\<open>analyzeVolume\<close> do: \<open>isAutoPaused\<close> is true while \<open>isPlaying\<close> is false. The
  overlay, which reads both flags, is hidden; the volume meter, which reads
  \<open>isAutoPaused\<close> alone, stays red.
\<close>

theorem autopause_flag_survives_stop:
  "isAutoPaused (prompterRun [AudioSetup quietMic, KeyDown Space, Frame laterFrame, KeyDown Space]
                   (prompterInit 0 1000)) \<and>
   \<not> isPlaying (prompterRun [AudioSetup quietMic, KeyDown Space, Frame laterFrame, KeyDown Space]
                   (prompterInit 0 1000)) \<and>
   volumeMeterRed (prompterRun [AudioSetup quietMic, KeyDown Space, Frame laterFrame, KeyDown Space]
                   (prompterInit 0 1000)) \<and>
   \<not> statusOverlay (prompterRun [AudioSetup quietMic, KeyDown Space, Frame laterFrame, KeyDown Space]
                   (prompterInit 0 1000)) \<and>
   statusOverlay (prompterRun [AudioSetup quietMic, KeyDown Space, Frame laterFrame]
                   (prompterInit 0 1000))"
  by (simp add: prompterInit_def quietMic_def laterFrame_def statusOverlay_def volumeMeterRed_def
      initAudioAnalysisOnly_def connectAnalyser_def analyzeVolume_def average_def
      handleKeyDown_def animate_def shouldPauseForSilence_def)

text \<open>
  Claim C9. If a recorder exists, stopping the recording clears \<open>isRecording\<close> and
  \<open>isPlaying\<close>, whether playback was on or not; so does the record button while
  recording.
\<close>

theorem stop_recording_stops_playback:
  "(mediaRecorderRef st \<noteq> None \<longrightarrow>
      \<not> isRecording (stopRecording st) \<and> \<not> isPlaying (stopRecording st)) \<and>
   (mediaRecorderRef st \<noteq> None \<and> isRecording st \<longrightarrow>
      \<not> isRecording (toggleRecording p st) \<and> \<not> isPlaying (toggleRecording p st))"
  by (auto simp: stopRecording_def toggleRecording_def)

theorem stop_recording_stops_playback_witness:
  "mediaRecorderRef (listening\<lparr>mediaRecorderRef := Some Recording, isRecording := True\<rparr>) \<noteq> None \<and>
   isPlaying (listening\<lparr>mediaRecorderRef := Some Recording, isRecording := True\<rparr>) \<and>
   \<not> isRecording (stopRecording (listening\<lparr>mediaRecorderRef := Some Recording, isRecording := True\<rparr>)) \<and>
   \<not> isPlaying (stopRecording (listening\<lparr>mediaRecorderRef := Some Recording, isRecording := True\<rparr>)) \<and>
   \<not> isPlaying (toggleRecording quietMic (listening\<lparr>mediaRecorderRef := Some Recording, isRecording := True\<rparr>))"
  using stop_recording_stops_playback
    [of "listening\<lparr>mediaRecorderRef := Some Recording, isRecording := True\<rparr>" quietMic]
  by (simp add: listening_eq prompterInit_def)

lemma flags_analyzeVolume [simp]:
  "isCameraOn (analyzeVolume p st) = isCameraOn st"
  "isScreenShareOn (analyzeVolume p st) = isScreenShareOn st"
  by (simp_all add: analyzeVolume_def Let_def)

lemma flags_connectAnalyser [simp]:
  "isCameraOn (connectAnalyser p st) = isCameraOn st"
  "isScreenShareOn (connectAnalyser p st) = isScreenShareOn st"
  by (simp_all add: connectAnalyser_def)

lemma flags_initAudioAnalysisOnly [simp]:
  "isCameraOn (initAudioAnalysisOnly p st) = isCameraOn st"
  "isScreenShareOn (initAudioAnalysisOnly p st) = isScreenShareOn st"
  by (simp_all add: initAudioAnalysisOnly_def)

lemma flags_initAudioAnalysisFromStream [simp]:
  "isCameraOn (initAudioAnalysisFromStream p b ms st) = isCameraOn st"
  "isScreenShareOn (initAudioAnalysisFromStream p b ms st) = isScreenShareOn st"
  by (simp_all add: initAudioAnalysisFromStream_def)

lemma flags_stopCurrentStream [simp]:
  "isCameraOn (stopCurrentStream st) = isCameraOn st"
  "isScreenShareOn (stopCurrentStream st) = isScreenShareOn st"
  by (simp_all add: stopCurrentStream_def Let_def split: option.splits)

lemma flags_attachPreview [simp]:
  "isCameraOn (attachPreview ms st) = isCameraOn st"
  "isScreenShareOn (attachPreview ms st) = isScreenShareOn st"
  by (simp_all add: attachPreview_def split: option.splits)

lemma flags_modeEffect [simp]:
  "isCameraOn (modeEffect p st) = isCameraOn st"
  "isScreenShareOn (modeEffect p st) = isScreenShareOn st"
  by (simp_all add: modeEffect_def startCamera_def startScreenShare_def Let_def)

lemma exclusive_rerunModeEffect: "exclusive st \<Longrightarrow> exclusive (rerunModeEffect p b st)"
  by (auto simp: rerunModeEffect_def exclusive_def)

lemma exclusive_handleToggleCamera: "exclusive st \<Longrightarrow> exclusive (handleToggleCamera st)"
  by (auto simp: exclusive_def handleToggleCamera_def Let_def)

lemma exclusive_handleToggleScreen: "exclusive st \<Longrightarrow> exclusive (handleToggleScreen st)"
  by (auto simp: exclusive_def handleToggleScreen_def Let_def)

lemma exclusive_startCameraSettled: "exclusive st \<Longrightarrow> exclusive (startCameraSettled p st)"
  by (auto simp: exclusive_def startCameraSettled_def Let_def split: list.splits option.splits)

lemma exclusive_startScreenShareSettled:
  "exclusive st \<Longrightarrow> exclusive (startScreenShareSettled p st)"
  by (auto simp: exclusive_def startScreenShareSettled_def Let_def
      split: nat.splits option.splits)

lemma exclusive_step: "exclusive st \<Longrightarrow> exclusive (prompterStep e st)"
proof (cases e)
  case (Frame p)
  assume "exclusive st"
  then show ?thesis using Frame
    by (auto simp: exclusive_def animate_def Let_def split: option.splits)
next
  case (Sample p)
  assume "exclusive st"
  then show ?thesis using Sample by (simp add: exclusive_def)
next
  case (KeyDown k)
  assume "exclusive st"
  then show ?thesis using KeyDown
    by (auto simp: exclusive_def handleKeyDown_def split: key.splits option.splits)
next
  case PlayButton
  assume "exclusive st"
  then show ?thesis using PlayButton by (simp add: exclusive_def playButton_def)
next
  case (ToggleRecording p)
  assume "exclusive st"
  then show ?thesis using ToggleRecording
    by (auto simp: exclusive_def toggleRecording_def startRecording_def stopRecording_def
        split: option.splits)
next
  case (ToggleCamera p)
  assume "exclusive st"
  then show ?thesis using ToggleCamera
    by (simp add: exclusive_rerunModeEffect exclusive_handleToggleCamera)
next
  case (ToggleScreen p)
  assume "exclusive st"
  then show ?thesis using ToggleScreen
    by (simp add: exclusive_rerunModeEffect exclusive_handleToggleScreen)
next
  case (CameraSettled p)
  assume "exclusive st"
  then show ?thesis using CameraSettled
    by (simp add: exclusive_rerunModeEffect exclusive_startCameraSettled)
next
  case (ScreenSettled p)
  assume "exclusive st"
  then show ?thesis using ScreenSettled
    by (simp add: exclusive_rerunModeEffect exclusive_startScreenShareSettled)
next
  case (ScreenEnded p)
  assume "exclusive st"
  then have "exclusive (screenEnded p st)"
    by (simp add: exclusive_def screenEnded_def)
  then show ?thesis using ScreenEnded by (simp add: exclusive_rerunModeEffect)
next
  case (DeviceChanged p)
  assume "exclusive st"
  then show ?thesis using DeviceChanged by (simp add: exclusive_def)
next
  case (AudioSetup p)
  assume "exclusive st"
  then show ?thesis using AudioSetup by (simp add: exclusive_def)
qed

text \<open>
  After any sequence of events from the mounted state, requests still pending or not,
  the camera flag and the screen flag are not both set.
\<close>

lemma exclusive_run: "exclusive st \<Longrightarrow> exclusive (prompterRun es st)"
  by (induction es arbitrary: st) (auto intro: exclusive_step)

lemma flags_never_both:
  "\<not> (isCameraOn (prompterRun es (prompterInit t0 m)) \<and>
      isScreenShareOn (prompterRun es (prompterInit t0 m)))"
proof -
  have "exclusive (prompterInit t0 m)"
    by (simp add: exclusive_def prompterInit_def)
  then have "exclusive (prompterRun es (prompterInit t0 m))"
    by (rule exclusive_run)
  then show ?thesis by (simp add: exclusive_def)
qed

lemma stream_analyzeVolume [simp]:
  "mediaStreamRef (analyzeVolume p st) = mediaStreamRef st"
  "stoppedTracks (analyzeVolume p st) = stoppedTracks st"
  "videoPreviewRef (analyzeVolume p st) = videoPreviewRef st"
  by (simp_all add: analyzeVolume_def Let_def)

lemma stream_initAudioAnalysisOnly [simp]:
  "mediaStreamRef (initAudioAnalysisOnly p st) = mediaStreamRef st"
  "stoppedTracks (initAudioAnalysisOnly p st) = stoppedTracks st"
  "videoPreviewRef (initAudioAnalysisOnly p st) = videoPreviewRef st"
  by (simp_all add: initAudioAnalysisOnly_def connectAnalyser_def)

lemma stopCurrentStream_effect:
  "mediaStreamRef (stopCurrentStream st) = None"
  "videoPreviewRef (stopCurrentStream st) = (case videoPreviewRef st of None \<Rightarrow> None | Some src \<Rightarrow> Some None)"
  "stoppedTracks (stopCurrentStream st) =
     stoppedTracks st \<union> (case mediaStreamRef st of None \<Rightarrow> {} | Some ms \<Rightarrow> set ms)"
  by (simp_all add: stopCurrentStream_def Let_def split: option.splits)

text \<open>
  Every run of the mode effect, whichever branch it takes, stops the tracks of the
  stream held at that moment, clears the reference and detaches the preview, before the
  capture request is issued; both toggles reach it.
\<close>

lemma modeEffect_tears_down:
  "mediaStreamRef (modeEffect p st) = None"
  "videoPreviewRef (modeEffect p st) = (case videoPreviewRef st of None \<Rightarrow> None | Some src \<Rightarrow> Some None)"
  "stoppedTracks (modeEffect p st) =
     stoppedTracks st \<union> (case mediaStreamRef st of None \<Rightarrow> {} | Some ms \<Rightarrow> set ms)"
  by (simp_all add: modeEffect_def startCamera_def startScreenShare_def Let_def
      stopCurrentStream_effect)

lemma toggle_tears_down:
  assumes "mediaStreamRef st = Some ms" and "e = ToggleCamera p \<or> e = ToggleScreen p"
  shows "set ms \<subseteq> stoppedTracks (prompterStep e st)"
    and "mediaStreamRef (prompterStep e st) = None"
    and "videoPreviewRef st \<noteq> None \<longrightarrow> videoPreviewRef (prompterStep e st) = Some None"
  using assms
  by (auto simp: rerunModeEffect_def modeEffect_tears_down handleToggleCamera_def
      handleToggleScreen_def Let_def)

text \<open>
  Claim C8 at an input where the code departs from it. The camera is switched on and,
  before its request has settled, the screen share: the flags exclude each other
  throughout and each start tears down what is held, which is nothing. The camera
  request then resolves and its continuation stores the camera stream, although the
  camera flag is off by now; the display request resolves and its continuation
  overwrites the reference with the screen stream. No track of the camera stream has
  been stopped, nothing refers to it any more, and switching the screen share off
  stops the screen stream only.
\<close>

theorem crossed_requests_leave_camera_live:
  "mediaStreamRef (prompterRun (take 3 crossedRequests) (prompterInit 0 1000)) = Some cameraStream \<and>
   \<not> isCameraOn (prompterRun (take 3 crossedRequests) (prompterInit 0 1000)) \<and>
   isScreenShareOn (prompterRun crossedRequests (prompterInit 0 1000)) \<and>
   mediaStreamRef (prompterRun crossedRequests (prompterInit 0 1000)) = Some screenStream \<and>
   videoPreviewRef (prompterRun crossedRequests (prompterInit 0 1000)) = Some (Some screenStream) \<and>
   stoppedTracks (prompterRun crossedRequests (prompterInit 0 1000)) = {} \<and>
   mediaStreamRef (prompterRun (crossedRequests @ [ToggleScreen quietMic]) (prompterInit 0 1000)) = None \<and>
   stoppedTracks (prompterRun (crossedRequests @ [ToggleScreen quietMic]) (prompterInit 0 1000)) =
     set screenStream \<and>
   set cameraStream \<inter>
     stoppedTracks (prompterRun (crossedRequests @ [ToggleScreen quietMic]) (prompterInit 0 1000)) = {}"
  by (simp add: crossedRequests_def prompterInit_def quietMic_def cameraGranted_def
      screenGranted_def cameraStream_def screenStream_def rerunModeEffect_def modeEffect_def
      handleToggleCamera_def handleToggleScreen_def startCamera_def startScreenShare_def
      startCameraSettled_def startScreenShareSettled_def stopCurrentStream_def
      attachPreview_def initAudioAnalysisFromStream_def initAudioAnalysisOnly_def
      connectAnalyser_def analyzeVolume_def average_def Let_def)

lemma frames_append: "frames (ps @ qs) st = frames qs (frames ps st)"
  by (induction ps arbitrary: st) simp_all

lemma animate_keeps [simp]:
  "isPlaying (animate p st) = isPlaying st"
  "scrollSpeed (animate p st) = scrollSpeed st"
  "micPermission (animate p st) = micPermission st"
  "lastNoiseTime (animate p st) = lastNoiseTime st"
  "silenceThresholdSeconds (animate p st) = silenceThresholdSeconds st"
  by (simp_all add: animate_def Let_def split: option.splits)

lemma frames_keeps [simp]:
  "isPlaying (frames ps st) = isPlaying st"
  "scrollSpeed (frames ps st) = scrollSpeed st"
  "micPermission (frames ps st) = micPermission st"
  "lastNoiseTime (frames ps st) = lastNoiseTime st"
  "silenceThresholdSeconds (frames ps st) = silenceThresholdSeconds st"
  by (induction ps arbitrary: st) simp_all

lemma shouldPause_frames [simp]:
  "shouldPauseForSilence p (frames ps st) = shouldPauseForSilence p st"
  by (simp add: shouldPauseForSilence_def)

lemma clamp_add:
  fixes a b t0 M :: int
  assumes "0 \<le> a" "a \<le> b" "0 \<le> t0" "t0 \<le> M"
  shows "max 0 (min M (min M (t0 + a) + (b - a))) = min M (t0 + b)"
  using assms by (auto simp: min_def max_def)

text \<open>One scrolling frame, in terms of the fractional total \<open>T\<close> reached so far.\<close>

lemma animate_scroll_step:
  fixes T :: rat
  assumes c: "containerRef st = Some c" and pl: "isPlaying st"
    and np: "\<not> shouldPauseForSilence p st"
    and s: "0 \<le> scrollSpeed st" and T: "0 \<le> T"
    and acc: "scrollAccumulator st = T - of_int \<lfloor>T\<rfloor>"
    and top: "scrollTop c = min (maxScroll c) (t0 + \<lfloor>T\<rfloor>)" and t0: "0 \<le> t0" and m: "t0 \<le> maxScroll c"
  shows "\<exists>c'. containerRef (animate p st) = Some c' \<and> maxScroll c' = maxScroll c \<and>
           scrollTop c' = min (maxScroll c) (t0 + \<lfloor>T + scrollSpeed st * (1 / 2)\<rfloor>) \<and>
           scrollAccumulator (animate p st) =
             (T + scrollSpeed st * (1 / 2)) - of_int \<lfloor>T + scrollSpeed st * (1 / 2)\<rfloor>"
proof -
  let ?T' = "T + scrollSpeed st * (1 / 2)"
  let ?a = "scrollAccumulator st + scrollSpeed st * (1 / 2)"
  have a: "?a = ?T' - of_int \<lfloor>T\<rfloor>" unfolding acc by simp
  have fl: "\<lfloor>?a\<rfloor> = \<lfloor>?T'\<rfloor> - \<lfloor>T\<rfloor>" unfolding a by (simp add: floor_diff_of_int)
  have mono: "\<lfloor>T\<rfloor> \<le> \<lfloor>?T'\<rfloor>" using s by (intro floor_mono) simp
  have T0: "0 \<le> \<lfloor>T\<rfloor>" using T by simp
  show ?thesis
  proof (cases "?a \<ge> 1")
    case True
    have "scrollAccumulator (animate p st) = ?a - of_int \<lfloor>?a\<rfloor>"
      using c pl np True by (simp add: animate_def Let_def)
    also have "\<dots> = ?T' - of_int \<lfloor>?T'\<rfloor>" unfolding fl unfolding acc by simp
    finally have A: "scrollAccumulator (animate p st) = ?T' - of_int \<lfloor>?T'\<rfloor>" .
    have C: "containerRef (animate p st) = Some (setScrollTop (scrollTop c + \<lfloor>?a\<rfloor>) c)"
      using c pl np True by (simp add: animate_def Let_def)
    have "max 0 (min (maxScroll c) (scrollTop c + \<lfloor>?a\<rfloor>)) = min (maxScroll c) (t0 + \<lfloor>?T'\<rfloor>)"
      unfolding fl top using T0 mono t0 m by (rule clamp_add)
    with A C show ?thesis by (simp add: setScrollTop_def)
  next
    case False
    have "0 \<le> scrollAccumulator st" unfolding acc by simp
    then have a0: "0 \<le> ?a" using s by simp
    from False a0 have "\<lfloor>?a\<rfloor> = 0" by (simp add: floor_eq_iff)
    with fl have eq: "\<lfloor>?T'\<rfloor> = \<lfloor>T\<rfloor>" by simp
    have "scrollAccumulator (animate p st) = ?a"
      using c pl np False by (simp add: animate_def Let_def)
    then have A: "scrollAccumulator (animate p st) = ?T' - of_int \<lfloor>?T'\<rfloor>"
      unfolding eq acc by simp
    have C: "containerRef (animate p st) = Some c"
      using c pl np False by (simp add: animate_def Let_def)
    from A C top eq show ?thesis by simp
  qed
qed

lemma frames_scroll:
  assumes c: "containerRef st = Some c" and pl: "isPlaying st"
    and s: "0 \<le> scrollSpeed st" and acc: "scrollAccumulator st = 0"
    and top: "0 \<le> scrollTop c" "scrollTop c \<le> maxScroll c"
  shows "(\<forall>p \<in> set ps. \<not> shouldPauseForSilence p st) \<Longrightarrow>
         \<exists>c'. containerRef (frames ps st) = Some c' \<and> maxScroll c' = maxScroll c \<and>
           scrollTop c' = min (maxScroll c)
              (scrollTop c + \<lfloor>of_nat (length ps) * scrollSpeed st * (1 / 2)\<rfloor>) \<and>
           scrollAccumulator (frames ps st) =
             of_nat (length ps) * scrollSpeed st * (1 / 2)
               - of_int \<lfloor>of_nat (length ps) * scrollSpeed st * (1 / 2)\<rfloor>"
proof (induction ps rule: rev_induct)
  case Nil
  then show ?case using c acc top by simp
next
  case (snoc p ps)
  let ?T = "of_nat (length ps) * scrollSpeed st * (1 / 2)"
  let ?st = "frames ps st"
  from snoc obtain c' where c': "containerRef ?st = Some c'" "maxScroll c' = maxScroll c"
      "scrollTop c' = min (maxScroll c) (scrollTop c + \<lfloor>?T\<rfloor>)"
      "scrollAccumulator ?st = ?T - of_int \<lfloor>?T\<rfloor>"
    by auto
  have np: "\<not> shouldPauseForSilence p ?st" using snoc.prems by simp
  have T: "0 \<le> ?T" using s by simp
  have step: "\<exists>d. containerRef (animate p ?st) = Some d \<and> maxScroll d = maxScroll c' \<and>
           scrollTop d = min (maxScroll c') (scrollTop c + \<lfloor>?T + scrollSpeed ?st * (1 / 2)\<rfloor>) \<and>
           scrollAccumulator (animate p ?st) =
             (?T + scrollSpeed ?st * (1 / 2)) - of_int \<lfloor>?T + scrollSpeed ?st * (1 / 2)\<rfloor>"
  proof (rule animate_scroll_step[OF c'(1) _ np _ T])
    show "isPlaying ?st" using pl by simp
    show "0 \<le> scrollSpeed ?st" using s by simp
    show "scrollAccumulator ?st = ?T - of_int \<lfloor>?T\<rfloor>" by (rule c'(4))
    show "scrollTop c' = min (maxScroll c') (scrollTop c + \<lfloor>?T\<rfloor>)" using c'(2,3) by simp
    show "0 \<le> scrollTop c" by (rule top(1))
    show "scrollTop c \<le> maxScroll c'" using top(2) c'(2) by simp
  qed
  have eq: "?T + scrollSpeed st * (1 / 2) = of_nat (length (ps @ [p])) * scrollSpeed st * (1 / 2)"
    by (simp add: algebra_simps)
  from step show ?case
    unfolding frames_append frames.simps frames_keeps c'(2) eq by simp
qed

text \<open>
  Claim C2. Start with an empty accumulator, a non-negative speed \<open>s\<close> and \<open>n\<close> frames
  that all play without pausing. Then the position has advanced by the floor of
  \<open>n * s * 0.5\<close> (up to the end of the document, where the DOM stops), the accumulator
  holds the fractional rest, the applied total is less than one unit away from the
  fractional total, and for speed 1 it is \<open>n div 2\<close>: one unit every other frame.
  Each such frame adds half the speed to the accumulator and, when the sum reaches 1,
  moves the position by its floor and keeps the rest.
\<close>

theorem subpixel_accumulation:
  assumes "containerRef st = Some c" and "isPlaying st"
    and "0 \<le> scrollSpeed st" and "scrollAccumulator st = 0"
    and "0 \<le> scrollTop c" and "scrollTop c \<le> maxScroll c"
    and "\<forall>p \<in> set ps. \<not> shouldPauseForSilence p st"
  shows "(\<exists>c'. containerRef (frames ps st) = Some c' \<and>
            scrollTop c' = min (maxScroll c)
              (scrollTop c + \<lfloor>of_nat (length ps) * scrollSpeed st * (1 / 2)\<rfloor>)) \<and>
         scrollAccumulator (frames ps st) =
           of_nat (length ps) * scrollSpeed st * (1 / 2)
             - of_int \<lfloor>of_nat (length ps) * scrollSpeed st * (1 / 2)\<rfloor> \<and>
         \<bar>of_int \<lfloor>of_nat (length ps) * scrollSpeed st * (1 / 2)\<rfloor>
             - of_nat (length ps) * scrollSpeed st * (1 / 2)\<bar> < 1 \<and>
         (scrollSpeed st = 1 \<longrightarrow>
            \<lfloor>of_nat (length ps) * scrollSpeed st * (1 / 2)\<rfloor> = int (length ps div 2)) \<and>
         (\<forall>q st' d. containerRef st' = Some d \<and> isPlaying st' \<and> \<not> shouldPauseForSilence q st' \<longrightarrow>
            scrollAccumulator (animate q st') =
              (let a = scrollAccumulator st' + scrollSpeed st' * (1 / 2)
               in if a \<ge> 1 then a - of_int \<lfloor>a\<rfloor> else a) \<and>
            containerRef (animate q st') =
              (let a = scrollAccumulator st' + scrollSpeed st' * (1 / 2)
               in if a \<ge> 1 then Some (setScrollTop (scrollTop d + \<lfloor>a\<rfloor>) d) else Some d))"
proof -
  let ?T = "of_nat (length ps) * scrollSpeed st * (1 / 2)"
  from frames_scroll[OF assms(1-6), of ps] assms(7)
  have 1: "(\<exists>c'. containerRef (frames ps st) = Some c' \<and>
            scrollTop c' = min (maxScroll c) (scrollTop c + \<lfloor>?T\<rfloor>))"
    and 2: "scrollAccumulator (frames ps st) = ?T - of_int \<lfloor>?T\<rfloor>"
    by auto
  have 3: "\<bar>of_int \<lfloor>?T\<rfloor> - ?T\<bar> < 1"
    by linarith
  have 4: "scrollSpeed st = 1 \<longrightarrow> \<lfloor>?T\<rfloor> = int (length ps div 2)"
  proof
    assume "scrollSpeed st = 1"
    then have "?T = of_int (int (length ps)) / of_int 2" by simp
    then have "\<lfloor>?T\<rfloor> = int (length ps) div 2"
      by (simp only: floor_divide_of_int_eq)
    then show "\<lfloor>?T\<rfloor> = int (length ps div 2)" by (simp add: zdiv_int)
  qed
  have 5: "\<forall>q st' d. containerRef st' = Some d \<and> isPlaying st' \<and> \<not> shouldPauseForSilence q st' \<longrightarrow>
            scrollAccumulator (animate q st') =
              (let a = scrollAccumulator st' + scrollSpeed st' * (1 / 2)
               in if a \<ge> 1 then a - of_int \<lfloor>a\<rfloor> else a) \<and>
            containerRef (animate q st') =
              (let a = scrollAccumulator st' + scrollSpeed st' * (1 / 2)
               in if a \<ge> 1 then Some (setScrollTop (scrollTop d + \<lfloor>a\<rfloor>) d) else Some d)"
    by (simp add: animate_def Let_def)
  from 1 2 3 4 5 show ?thesis by (intro conjI)
qed

theorem subpixel_accumulation_witness:
  "(\<exists>c'. containerRef (frames [quietMic, quietMic, quietMic, quietMic, quietMic,
                                 quietMic, quietMic, quietMic, quietMic, quietMic] speedOne) = Some c' \<and>
          scrollTop c' = 5) \<and>
   scrollAccumulator (frames [quietMic, quietMic, quietMic, quietMic, quietMic,
                              quietMic, quietMic, quietMic, quietMic, quietMic] speedOne) = 0"
  using subpixel_accumulation
    [of speedOne "\<lparr>scrollTop = 0, maxScroll = 1000\<rparr>"
        "[quietMic, quietMic, quietMic, quietMic, quietMic,
          quietMic, quietMic, quietMic, quietMic, quietMic]"]
  by (simp add: speedOne_eq prompterInit_def shouldPauseForSilence_def setScrollTop_def)

end
